theory Spec2Isabelle
  imports Main "HOL-Library.Word"
begin

section \<open>Time values\<close>

text \<open>
  A Go \<open>time.Time\<close> is modelled by its instant: the number of nanoseconds since the Unix
  epoch, an unbounded integer. All wall-clock readings are taken in UTC (the location of
  \<open>time.Now()\<close> on a server whose zone is UTC), so that \<open>time.Date\<close>, \<open>Weekday\<close>,
  \<open>AddDate\<close> and \<open>Format\<close> are plain arithmetic on the instant. \<open>time.Now()\<close> is a
  parameter \<open>now\<close> of every function that reads the clock. A \<open>time.Duration\<close> is a
  signed 64-bit count of nanoseconds; Go's \<open>int\<close> is the 64-bit \<open>int\<close> of the usual
  platforms. \<open>Time.Add\<close> is exact addition (it saturates only some 292 billion years
  away from the epoch).
\<close>

type_synonym Time = int

definition Minute :: int where
  "Minute = 60000000000"

definition DayNs :: int where
  "DayNs = 1440 * Minute"

text \<open>\<open>time.Minute * time.Duration(n)\<close>: an int64 product, which wraps.\<close>

definition minutesDuration :: "64 word \<Rightarrow> int" where
  "minutesDuration n = sint ((60000000000 :: 64 word) * n)"

text \<open>\<open>time.Date(t.Year(), t.Month(), t.Day(), hour, min, 0, 0, t.Location())\<close>.\<close>

definition DateAt :: "Time \<Rightarrow> nat \<Rightarrow> nat \<Rightarrow> Time" where
  "DateAt t hour minute = (t - t mod DayNs) + (int hour * 60 + int minute) * Minute"

text \<open>\<open>t.AddDate(0, 0, days)\<close>.\<close>

definition AddDays :: "Time \<Rightarrow> int \<Rightarrow> Time" where
  "AddDays t days = t + days * DayNs"

text \<open>\<open>t.Weekday()\<close>, Sunday = 0; the epoch was a Thursday.\<close>

definition Weekday :: "Time \<Rightarrow> int" where
  "Weekday t = (t div DayNs + 4) mod 7"

definition digit :: "nat \<Rightarrow> char" where
  "digit n = ''0123456789'' ! n"

text \<open>\<open>t.Format(layoutHM)\<close> with \<open>layoutHM = "15:04"\<close>.\<close>

definition FormatHM :: "Time \<Rightarrow> string" where
  "FormatHM t =
     (let m = nat ((t div Minute) mod 1440); h = m div 60; mi = m mod 60
      in [digit (h div 10), digit (h mod 10), CHR '':'', digit (mi div 10), digit (mi mod 10)])"

subsection \<open>Parsing a stored time of day\<close>

text \<open>
  \<open>time.Parse(layoutDBTime, s)\<close> with \<open>layoutDBTime = "15:04:05"\<close>, as the Go library
  reads that layout: an hour of one or two digits below 24, a colon, a two-digit minute
  below 60, a colon, a two-digit second below 60, an optional fraction (a period or comma
  and digits), and nothing else. The caller reads only \<open>Hour()\<close> and \<open>Minute()\<close> of the
  result, which is the pair returned here.
\<close>

definition isDigit :: "char \<Rightarrow> bool" where
  "isDigit c = (48 \<le> (of_char c :: nat) \<and> (of_char c :: nat) \<le> 57)"

definition digitVal :: "char \<Rightarrow> nat" where
  "digitVal c = of_char c - 48"

fun getnum :: "string \<Rightarrow> bool \<Rightarrow> (nat \<times> string) option" where
  "getnum [] fixed = None"
| "getnum [a] fixed = (if \<not> isDigit a \<or> fixed then None else Some (digitVal a, []))"
| "getnum (a # b # s) fixed =
     (if \<not> isDigit a then None
      else if \<not> isDigit b then (if fixed then None else Some (digitVal a, b # s))
      else Some (digitVal a * 10 + digitVal b, s))"

fun skipColon :: "string \<Rightarrow> string option" where
  "skipColon [] = None"
| "skipColon (c # s) = (if c = CHR '':'' then Some s else None)"

fun skipFraction :: "string \<Rightarrow> string" where
  "skipFraction (p # d # s) =
     (if (p = CHR ''.'' \<or> p = CHR '','') \<and> isDigit d then dropWhile isDigit s else p # d # s)"
| "skipFraction s = s"

definition ParseDBTime :: "string \<Rightarrow> (nat \<times> nat) option" where
  "ParseDBTime s =
     (case getnum s False of None \<Rightarrow> None
      | Some (hour, r1) \<Rightarrow> if 24 \<le> hour then None else
     (case skipColon r1 of None \<Rightarrow> None
      | Some r2 \<Rightarrow>
     (case getnum r2 True of None \<Rightarrow> None
      | Some (minute, r3) \<Rightarrow> if 60 \<le> minute then None else
     (case skipColon r3 of None \<Rightarrow> None
      | Some r4 \<Rightarrow>
     (case getnum r4 True of None \<Rightarrow> None
      | Some (sec, r5) \<Rightarrow> if 60 \<le> sec then None
          else if skipFraction r5 = [] then Some (hour, minute) else None)))))"

section \<open>Meetings and the slot generator\<close>

datatype MeetingStatus = Scheduled | Cancelled

text \<open>
  \<open>model.Meeting\<close>; the row timestamps and the joined event columns, which no function
  below reads, are left out.
\<close>

record Meeting =
  MeetingID :: string
  MeetingUserID :: string
  MeetingEventID :: string
  GuestName :: string
  GuestEmail :: string
  AdditionalInfo :: string
  StartTime :: Time
  EndTime :: Time
  MeetLink :: string
  CalendarEventID :: string
  CalendarAppType :: string
  Status :: MeetingStatus

fun IsSlotAvailable :: "Time \<Rightarrow> Time \<Rightarrow> Meeting list \<Rightarrow> bool" where
  "IsSlotAvailable slotStart slotEnd [] = True"
| "IsSlotAvailable slotStart slotEnd (meeting # meetings) =
     (if slotStart < EndTime meeting \<and> slotEnd > StartTime meeting then False
      else IsSlotAvailable slotStart slotEnd meetings)"

text \<open>
  The \<open>for\<close> loop of \<open>GenerateAvailableTimeSlots\<close>: \<open>duration\<close> and \<open>gap\<close> are the two
  \<open>time.Duration\<close> values added in each round. The loop need not end, so its result is an
  option: \<open>None\<close> is a loop that runs forever.
\<close>

partial_function (option) slotLoop ::
  "int \<Rightarrow> int \<Rightarrow> Time \<Rightarrow> Time \<Rightarrow> Meeting list \<Rightarrow> Time \<Rightarrow> string list \<Rightarrow> string list option"
where
  "slotLoop duration gap dayEndBoundary now meetingsOnDate currentSlotStart slots =
     (if currentSlotStart < dayEndBoundary then
        (if currentSlotStart + duration > dayEndBoundary then Some slots
         else slotLoop duration gap dayEndBoundary now meetingsOnDate (currentSlotStart + gap)
                (if (currentSlotStart > now \<or> currentSlotStart = now)
                     \<and> IsSlotAvailable currentSlotStart (currentSlotStart + duration) meetingsOnDate
                 then slots @ [FormatHM currentSlotStart] else slots))
      else Some slots)"

declare slotLoop.simps [code]

datatype SlotError = InvalidStartTime string | InvalidEndTime string

definition GenerateAvailableTimeSlots ::
  "string \<Rightarrow> string \<Rightarrow> 64 word \<Rightarrow> 64 word \<Rightarrow> Meeting list \<Rightarrow> Time \<Rightarrow> Time
     \<Rightarrow> (SlotError + string list) option"
where
  "GenerateAvailableTimeSlots dayStartTimeStr dayEndTimeStr durationMinutes timeGapMinutes
       meetingsOnDate targetDate now =
     (case ParseDBTime dayStartTimeStr of
        None \<Rightarrow> Some (Inl (InvalidStartTime dayStartTimeStr))
      | Some dayStartParsed \<Rightarrow>
     (case ParseDBTime dayEndTimeStr of
        None \<Rightarrow> Some (Inl (InvalidEndTime dayEndTimeStr))
      | Some dayEndParsed \<Rightarrow>
        (let slotStartBase = DateAt targetDate (fst dayStartParsed) (snd dayEndParsed);
             dayEndBoundary = DateAt targetDate (fst dayEndParsed) (snd dayEndParsed);
             gap = (if sint timeGapMinutes \<le> 0 then 30 else timeGapMinutes)
         in map_option Inr
              (slotLoop (minutesDuration durationMinutes) (minutesDuration gap) dayEndBoundary
                 now meetingsOnDate slotStartBase []))))"

section \<open>Application errors\<close>

datatype ErrorCode =
    AuthUserNotFound | AuthEmailAlreadyExists | AuthInvalidToken | AuthNotFound
  | AuthTooManyAttempts | AuthUnauthorizedAccess | AuthTokenNotFound | AccessUnauthorized
  | ValidationError | ResourceNotFound | InternalServerError | BadRequest

text \<open>
  The errors a query returns: \<open>sql.ErrNoRows\<close>, a violated uniqueness or exclusion
  constraint, or any other failure (of the connection, of the statement, or of the scan of
  its result into the destination), the last two with the text of the error.
\<close>

datatype DBError = ErrNoRows | ConstraintViolation string | StorageFailure string

text \<open>
  A Go \<open>error\<close> value: an error of the storage layer, an error of the calendar provider's
  client with its text, or an \<open>*appError.AppError\<close> with its \<open>Code\<close>, \<open>Message\<close> and
  wrapped cause \<open>Err\<close>.
\<close>

datatype GoError =
    DBErr DBError
  | ProviderError string
  | AppError ErrorCode string "GoError option"

definition NewAppError :: "ErrorCode \<Rightarrow> string \<Rightarrow> GoError option \<Rightarrow> GoError" where
  "NewAppError code msg cause = AppError code msg cause"

definition NewNotFoundError :: "string \<Rightarrow> GoError option \<Rightarrow> GoError" where
  "NewNotFoundError resource cause =
     NewAppError ResourceNotFound
       (if resource = [] then [] else ''Resource '' @ [CHR 0x27] @ resource @ [CHR 0x27] @ '' not found.'')
       cause"

record ErrorDetail =
  DetailHTTPStatus :: nat
  DetailMessage :: string

text \<open>The table \<open>appErrorConfig\<close>; it has no entry for \<open>BadRequest\<close>.\<close>

fun appErrorConfig :: "ErrorCode \<Rightarrow> ErrorDetail option" where
  "appErrorConfig AuthUserNotFound =
     Some \<lparr>DetailHTTPStatus = 404, DetailMessage = ''Authentication failed: User not found''\<rparr>"
| "appErrorConfig AuthEmailAlreadyExists =
     Some \<lparr>DetailHTTPStatus = 409,
           DetailMessage = ''Cannot register: Email address is already in use.''\<rparr>"
| "appErrorConfig AuthInvalidToken =
     Some \<lparr>DetailHTTPStatus = 401,
           DetailMessage = ''Authentication failed: Invalid or expired token.''\<rparr>"
| "appErrorConfig AuthNotFound =
     Some \<lparr>DetailHTTPStatus = 404, DetailMessage = ''Authentication details not found.''\<rparr>"
| "appErrorConfig AuthTooManyAttempts =
     Some \<lparr>DetailHTTPStatus = 429,
           DetailMessage = ''Too many authentication attempts. Please try again later.''\<rparr>"
| "appErrorConfig AuthUnauthorizedAccess =
     Some \<lparr>DetailHTTPStatus = 401,
           DetailMessage = ''Authentication required to access this resource.''\<rparr>"
| "appErrorConfig AuthTokenNotFound =
     Some \<lparr>DetailHTTPStatus = 401, DetailMessage = ''Authentication token not provided.''\<rparr>"
| "appErrorConfig AccessUnauthorized =
     Some \<lparr>DetailHTTPStatus = 403,
           DetailMessage =
             ''Access denied: You do not have permission to perform this action.''\<rparr>"
| "appErrorConfig ValidationError =
     Some \<lparr>DetailHTTPStatus = 400, DetailMessage = ''Input validation failed.''\<rparr>"
| "appErrorConfig ResourceNotFound =
     Some \<lparr>DetailHTTPStatus = 404,
           DetailMessage = ''The requested resource could not be found.''\<rparr>"
| "appErrorConfig InternalServerError =
     Some \<lparr>DetailHTTPStatus = 500,
           DetailMessage = ''An unexpected internal error occurred. Please try again later.''\<rparr>"
| "appErrorConfig BadRequest = None"

text \<open>
  The methods \<open>GetErrorDetail\<close>, \<open>Error\<close> and \<open>HTTPStatus\<close> of \<open>*AppError\<close>, which
  \<open>WriteError\<close> uses for the status and text of the response. The handlers pass no other
  kind of error to \<open>WriteError\<close>; for one, its fallback is status 500 with a fixed text,
  which is the second equation of \<open>GetErrorDetail\<close>. After the response is written
  \<open>WriteError\<close> logs the error with \<open>log.Fatalf\<close>, which ends the process; the model of a
  handler stops at the response and the state it leaves.
\<close>

fun GetErrorDetail :: "GoError \<Rightarrow> ErrorDetail" where
  "GetErrorDetail (AppError code msg cause) =
     (case appErrorConfig code of
        None \<Rightarrow> \<lparr>DetailHTTPStatus = 500, DetailMessage = ''An unknown internal error occurred.''\<rparr>
      | Some detail \<Rightarrow> detail)"
| "GetErrorDetail e =
     \<lparr>DetailHTTPStatus = 500, DetailMessage = ''An unexpected internal error occurred.''\<rparr>"

fun ErrorText :: "GoError \<Rightarrow> string" where
  "ErrorText (AppError code msg cause) =
     (if msg \<noteq> [] then msg else DetailMessage (GetErrorDetail (AppError code msg cause)))"
| "ErrorText (ProviderError msg) = msg"
| "ErrorText (DBErr ErrNoRows) = ''sql: no rows in result set''"
| "ErrorText (DBErr (ConstraintViolation msg)) = msg"
| "ErrorText (DBErr (StorageFailure msg)) = msg"

definition HTTPStatus :: "GoError \<Rightarrow> nat" where
  "HTTPStatus e = DetailHTTPStatus (GetErrorDetail e)"

text \<open>\<open>http.StatusConflict\<close>.\<close>

definition StatusConflict :: nat where
  "StatusConflict = 409"

section \<open>Stored data, the calendar provider and the environment\<close>

text \<open>
  \<open>enum.DayOfWeek\<close>, \<open>enum.IntegrationAppType\<close> and \<open>enum.EventLocationType\<close> are
  string types with named constants; the code compares them with \<open>""\<close> and looks them
  up in tables, so they stay strings here.
\<close>

type_synonym DayOfWeek = string

definition Sunday :: DayOfWeek where "Sunday = ''SUNDAY''"
definition Monday :: DayOfWeek where "Monday = ''MONDAY''"
definition Tuesday :: DayOfWeek where "Tuesday = ''TUESDAY''"
definition Wednesday :: DayOfWeek where "Wednesday = ''WEDNESDAY''"
definition Thursday :: DayOfWeek where "Thursday = ''THURSDAY''"
definition Friday :: DayOfWeek where "Friday = ''FRIDAY''"
definition Saturday :: DayOfWeek where "Saturday = ''SATURDAY''"

definition AllDayOfWeek :: "DayOfWeek list" where
  "AllDayOfWeek = [Sunday, Monday, Tuesday, Wednesday, Thursday, Friday, Saturday]"

definition AppGoogleMeetAndCalendar :: string where
  "AppGoogleMeetAndCalendar = ''GOOGLE_MEET_AND_CALENDAR''"

definition AppZoomMeeting :: string where
  "AppZoomMeeting = ''ZOOM_MEETING''"

definition LocationGoogleMeetAndCalendar :: string where
  "LocationGoogleMeetAndCalendar = AppGoogleMeetAndCalendar"

definition LocationZoomMeeting :: string where
  "LocationZoomMeeting = AppZoomMeeting"

definition AllEventLocationType :: "string list" where
  "AllEventLocationType = [LocationGoogleMeetAndCalendar, LocationZoomMeeting]"

text \<open>\<open>model.Event\<close>, without the row timestamps.\<close>

record Event =
  EventID :: string
  EventUserID :: string
  Title :: string
  Description :: string
  Duration :: "64 word"
  Slug :: string
  IsPrivate :: bool
  LocationType :: string

text \<open>
  \<open>model.Integration\<close>: a \<open>sql.NullString\<close> or \<open>sql.NullInt64\<close> column is an option,
  whose \<open>.String\<close> or \<open>.Int64\<close> is \<open>""\<close> or \<open>0\<close> when the column is null. The expiry
  date is in seconds. \<open>UserEmail\<close> is \<open>integration.User.Email\<close>.
\<close>

record Integration =
  IntegrationUserID :: string
  AppType :: string
  AccessToken :: "string option"
  RefreshToken :: "string option"
  ExpiryDate :: "int option"
  IsConnected :: bool
  UserEmail :: string

definition nullString :: "string option \<Rightarrow> string" where
  "nullString x = (case x of None \<Rightarrow> [] | Some s \<Rightarrow> s)"

definition nullInt64 :: "int option \<Rightarrow> int" where
  "nullInt64 x = (case x of None \<Rightarrow> 0 | Some n \<Rightarrow> n)"

text \<open>\<open>time.Unix(sec, 0)\<close>.\<close>

definition Unix :: "int \<Rightarrow> Time" where
  "Unix sec = sec * 1000000000"

text \<open>\<open>oauth2.Token\<close>; \<open>Expiry = None\<close> is the zero time.\<close>

record Token =
  TokenAccessToken :: string
  TokenRefreshToken :: string
  TokenExpiry :: "Time option"

text \<open>The \<open>calendar.Event\<close> sent to the provider and the fields read from the one it returns.\<close>

record CalendarEvent =
  Summary :: string
  CalDescription :: string
  CalStart :: Time
  CalEnd :: Time
  Attendees :: "string list"
  RequestId :: "string \<times> Time"

record CreatedCalendarEvent =
  CreatedId :: string
  HangoutLink :: string

text \<open>One row of the join that \<open>GetPublicEventAvailability\<close> reads first.\<close>

record EventAvailabilityRow =
  RowEvent :: Event
  AvailabilityID :: "string option"
  TimeGap :: "64 word option"
  RowDay :: DayOfWeek
  RowStartTime :: string
  RowEndTime :: string
  RowIsAvailable :: bool

text \<open>
  What the handlers read and change: the tables, the rows of the join of events, users,
  availability and day availability that \<open>GetPublicEventAvailability\<close> selects from, and
  the calls made to the provider (its token endpoint and calendar API) so far, in order.
\<close>

datatype ProviderCall =
    TokenCall Token
  | EventsInsertCall Token CalendarEvent
  | EventsDeleteCall Token string

record World =
  events :: "Event list"
  integrations :: "Integration list"
  meetings :: "Meeting list"
  eventAvailability :: "EventAvailabilityRow list"
  providerCalls :: "ProviderCall list"

text \<open>
  What the handlers cannot decide: whether a query fails in the storage layer, the id the
  database gives a new meeting, and the provider's answers. \<open>tokenSourceToken\<close> is
  \<open>googleOAuthConfig.TokenSource(ctx, token).Token()\<close>, \<open>calendarNewService\<close> the error of
  \<open>calendar.NewService\<close> if any, \<open>eventsInsert\<close> and \<open>eventsDelete\<close> the calls
  \<open>Events.Insert(...).Do()\<close> and \<open>Events.Delete(...).Do()\<close> of a client built on a token.
  A query that fails changes no table.
\<close>

datatype Query =
    EventQuery | IntegrationQuery | InsertMeetingQuery | FetchMeetingQuery
  | UpdateMeetingQuery | MeetingsInRangeQuery | EventAvailabilityQuery

record Env =
  dbFault :: "Query \<Rightarrow> DBError option"
  generatedID :: string
  tokenSourceToken :: "Token \<Rightarrow> string + Token"
  calendarNewService :: "string option"
  eventsInsert :: "Token \<Rightarrow> CalendarEvent \<Rightarrow> string + CreatedCalendarEvent"
  eventsDelete :: "Token \<Rightarrow> string \<Rightarrow> string option"

text \<open>
  \<open>db.GetContext\<close>: the failure of the storage layer if there is one, \<open>sql.ErrNoRows\<close>
  when no row matches, the first matching row otherwise. Output of \<open>log.Printf\<close> is not
  part of the model.
\<close>

definition GetContext :: "Env \<Rightarrow> Query \<Rightarrow> 'a option \<Rightarrow> DBError + 'a" where
  "GetContext env q row =
     (case dbFault env q of
        Some e \<Rightarrow> Inl e
      | None \<Rightarrow> (case row of None \<Rightarrow> Inl ErrNoRows | Some r \<Rightarrow> Inr r))"

text \<open>\<open>SELECT e.* FROM events e WHERE e.id = $1 AND e.is_private = FALSE\<close>.\<close>

definition findEvent :: "World \<Rightarrow> string \<Rightarrow> Event option" where
  "findEvent w eventID = find (\<lambda>e. EventID e = eventID \<and> \<not> IsPrivate e) (events w)"

text \<open>
  \<open>SELECT * FROM integrations WHERE user_id = $1 AND app_type = $2 AND is_connected = TRUE\<close>.
\<close>

definition findIntegration :: "World \<Rightarrow> string \<Rightarrow> string \<Rightarrow> Integration option" where
  "findIntegration w userID appType =
     find (\<lambda>i. IntegrationUserID i = userID \<and> AppType i = appType \<and> IsConnected i)
       (integrations w)"

section \<open>Credential refresh and the calendar client\<close>

text \<open>
  \<open>ValidateGoogleToken\<close>. With no refresh token the branch on the expiry has an empty
  body and the stored access token is returned; otherwise the token source is asked, which
  is the only contact with the provider. Nothing is written to the tables.
\<close>

definition ValidateGoogleToken ::
  "Env \<Rightarrow> string \<Rightarrow> string \<Rightarrow> int \<Rightarrow> Time \<Rightarrow> World \<Rightarrow> (GoError + string) \<times> World"
where
  "ValidateGoogleToken env accessToken refreshToken expiryDateUnix now w =
     (let expiryTime = Unix expiryDateUnix in
      if refreshToken = [] then
        (if now > expiryTime then (Inr accessToken, w) else (Inr accessToken, w))
      else
        (let currentToken = \<lparr>TokenAccessToken = accessToken, TokenRefreshToken = refreshToken,
                              TokenExpiry = Some expiryTime\<rparr>;
             w1 = w\<lparr>providerCalls := providerCalls w @ [TokenCall currentToken]\<rparr>
         in case tokenSourceToken env currentToken of
              Inl err \<Rightarrow>
                (Inl (NewAppError AuthInvalidToken ''Failed to refresh Google token''
                        (Some (ProviderError err))), w1)
            | Inr newToken \<Rightarrow> (Inr (TokenAccessToken newToken), w1)))"

text \<open>
  \<open>GetCalendarClient\<close>: the client is represented by the token its HTTP transport holds;
  the app type is returned beside it.
\<close>

definition GetCalendarClient ::
  "Env \<Rightarrow> Integration \<Rightarrow> Time \<Rightarrow> World \<Rightarrow> (GoError + Token \<times> string) \<times> World"
where
  "GetCalendarClient env integration now w =
     (let appType = AppType integration in
      if appType = AppGoogleMeetAndCalendar then
        (if RefreshToken integration = None \<or> nullString (RefreshToken integration) = [] then
           (Inl (NewAppError AuthUnauthorizedAccess
                   ''Google integration missing refresh token for offline access.'' None), w)
         else
           (case ValidateGoogleToken env (nullString (AccessToken integration))
                   (nullString (RefreshToken integration)) (nullInt64 (ExpiryDate integration))
                   now w of
              (Inl err, w1) \<Rightarrow>
                (Inl (NewAppError AuthInvalidToken ''Failed to validate/refresh Google token''
                        (Some err)), w1)
            | (Inr validAccessToken, w1) \<Rightarrow>
                (let token = \<lparr>TokenAccessToken = validAccessToken,
                               TokenRefreshToken = nullString (RefreshToken integration),
                               TokenExpiry = map_option Unix (ExpiryDate integration)\<rparr>
                 in case calendarNewService env of
                      Some err \<Rightarrow>
                        (Inl (NewAppError InternalServerError
                                ''Failed to create Google Calendar service client''
                                (Some (ProviderError err))), w1)
                    | None \<Rightarrow> (Inr (token, appType), w1))))
      else
        (Inl (NewAppError BadRequest
                (''Unsupported calendar provider app type: '' @ appType) None), w))"

definition IntegrationAppTypeFromEventLocation :: "string \<Rightarrow> string option" where
  "IntegrationAppTypeFromEventLocation loc =
     (if loc = LocationGoogleMeetAndCalendar then Some AppGoogleMeetAndCalendar
      else if loc = LocationZoomMeeting then Some AppZoomMeeting
      else None)"

section \<open>Booking and cancelling\<close>

record CreateMeetingDto =
  DtoEventID :: string
  DtoStartTime :: Time
  DtoEndTime :: Time
  DtoGuestName :: string
  DtoGuestEmail :: string
  DtoAdditionalInfo :: string

text \<open>
  The instant that \<open>t.Format(time.RFC3339)\<close> denotes: the layout has whole seconds.
\<close>

definition RFC3339 :: "Time \<Rightarrow> Time" where
  "RFC3339 t = t - t mod 1000000000"

record BookingResponse =
  RespMeetLink :: string
  RespMeeting :: Meeting

text \<open>
  Step 4 of \<open>CreateBooking\<close>, the calendar API: the meeting link, the calendar event id and
  the app type to store, or the error written to the response.
\<close>

definition bookingCalendarStep ::
  "Env \<Rightarrow> CreateMeetingDto \<Rightarrow> Event \<Rightarrow> Integration \<Rightarrow> Time \<Rightarrow> World
     \<Rightarrow> (GoError + string \<times> string \<times> string) \<times> World"
where
  "bookingCalendarStep env dto event integration now w =
     (if LocationType event = LocationGoogleMeetAndCalendar then
        (case GetCalendarClient env integration now w of
           (Inl err, w1) \<Rightarrow>
             (Inl (NewAppError InternalServerError (ErrorText err) (Some err)), w1)
         | (Inr (calendarSvc, appType), w1) \<Rightarrow>
             (let calEvent =
                    \<lparr>Summary = DtoGuestName dto @ '' - '' @ Title event,
                     CalDescription = DtoAdditionalInfo dto,
                     CalStart = RFC3339 (DtoStartTime dto),
                     CalEnd = RFC3339 (DtoEndTime dto),
                     Attendees = [DtoGuestEmail dto, UserEmail integration],
                     RequestId = (EventID event, now)\<rparr>;
                  w2 = w1\<lparr>providerCalls :=
                            providerCalls w1 @ [EventsInsertCall calendarSvc calEvent]\<rparr>
              in case eventsInsert env calendarSvc calEvent of
                   Inl err \<Rightarrow>
                     (Inl (NewAppError InternalServerError ''Failed to create calendar event''
                             (Some (ProviderError err))), w2)
                 | Inr createdCalEvent \<Rightarrow>
                     if CreatedId createdCalEvent = [] then
                       (Inl (NewAppError InternalServerError
                               ''Created calendar event missing ID'' None), w2)
                     else
                       (Inr (HangoutLink createdCalEvent, CreatedId createdCalEvent, appType),
                        w2)))
      else (Inr ([], [], []), w))"

text \<open>
  Step 5 of \<open>CreateBooking\<close>, the \<open>GetContext\<close> of \<open>INSERT INTO meetings ... RETURNING *\<close>
  into a \<open>model.Meeting\<close>. The additional info is sent as \<open>addInfo\<close>, a
  \<open>sql.NullString\<close> that is NULL for the empty text. A fault is a failure of the statement,
  which stores nothing. When the statement runs, the row is stored, and the returned row
  is scanned: \<open>model.Meeting\<close> declares \<open>AdditionalInfo\<close> a plain \<open>string\<close>, into which
  a NULL does not scan, so for an empty additional info \<open>GetContext\<close> returns the scan
  error after the row is written, and the handler answers the same error as for a failed
  statement. The stored row is shown as a \<open>model.Meeting\<close>, its NULL as the empty text.
\<close>

definition bookingInsertStep ::
  "Env \<Rightarrow> CreateMeetingDto \<Rightarrow> Event \<Rightarrow> string \<times> string \<times> string \<Rightarrow> World
     \<Rightarrow> (GoError + BookingResponse) \<times> World"
where
  "bookingInsertStep env dto event remote w =
     (case remote of (meetLink, calendarEventID, calendarAppTypeStr) \<Rightarrow>
        (let addInfo = (if DtoAdditionalInfo dto \<noteq> [] then Some (DtoAdditionalInfo dto)
                        else None)
         in case dbFault env InsertMeetingQuery of
           Some e \<Rightarrow>
             (Inl (NewAppError InternalServerError ''Failed to save meeting record''
                     (Some (DBErr e))), w)
         | None \<Rightarrow>
             (let createdMeeting =
                    \<lparr>MeetingID = generatedID env,
                     MeetingUserID = EventUserID event,
                     MeetingEventID = EventID event,
                     GuestName = DtoGuestName dto,
                     GuestEmail = DtoGuestEmail dto,
                     AdditionalInfo = nullString addInfo,
                     StartTime = RFC3339 (DtoStartTime dto),
                     EndTime = RFC3339 (DtoEndTime dto),
                     MeetLink = meetLink,
                     CalendarEventID = calendarEventID,
                     CalendarAppType = calendarAppTypeStr,
                     Status = Scheduled\<rparr>;
                  w1 = w\<lparr>meetings := meetings w @ [createdMeeting]\<rparr>
              in case addInfo of
                   None \<Rightarrow>
                     (Inl (NewAppError InternalServerError ''Failed to save meeting record''
                             (Some (DBErr (StorageFailure
                                ''converting NULL to string is unsupported'')))), w1)
                 | Some info \<Rightarrow>
                     (Inr \<lparr>RespMeetLink = meetLink, RespMeeting = createdMeeting\<rparr>, w1))))"

text \<open>
  \<open>CreateBooking\<close>: \<open>Inl\<close> is the error given to \<open>WriteError\<close>, \<open>Inr\<close> the body of the
  201 response. The request's DTO is \<open>None\<close> when the validator left none in the context.
\<close>

definition CreateBooking ::
  "Env \<Rightarrow> CreateMeetingDto option \<Rightarrow> Time \<Rightarrow> World \<Rightarrow> (GoError + BookingResponse) \<times> World"
where
  "CreateBooking env dtoOpt now w =
     (case dtoOpt of
        None \<Rightarrow>
          (Inl (NewAppError InternalServerError ''Validated DTO not found in context'' None), w)
      | Some dto \<Rightarrow>
     (case GetContext env EventQuery (findEvent w (DtoEventID dto)) of
        Inl ErrNoRows \<Rightarrow> (Inl (NewNotFoundError ''Public event'' None), w)
      | Inl e \<Rightarrow>
          (Inl (NewAppError InternalServerError ''Failed to fetch event'' (Some (DBErr e))), w)
      | Inr event \<Rightarrow>
          if LocationType event \<notin> set AllEventLocationType then
            (Inl (NewAppError BadRequest
                    (''Event has invalid location type: '' @ LocationType event) None), w)
          else
     (case IntegrationAppTypeFromEventLocation (LocationType event) of
        None \<Rightarrow>
          (Inl (NewAppError InternalServerError
                  ''Cannot map event location to integration app type'' None), w)
      | Some requiredAppType \<Rightarrow>
     (case GetContext env IntegrationQuery
             (findIntegration w (EventUserID event) requiredAppType) of
        Inl ErrNoRows \<Rightarrow>
          (Inl (NewAppError BadRequest
                  (''Required integration '' @ [CHR 0x27] @ requiredAppType @ [CHR 0x27]
                     @ '' not found or disconnected for the event owner.'') None), w)
      | Inl e \<Rightarrow>
          (Inl (NewAppError InternalServerError ''Failed to fetch integration''
                  (Some (DBErr e))), w)
      | Inr integration \<Rightarrow>
     (case bookingCalendarStep env dto event integration now w of
        (Inl err, w1) \<Rightarrow> (Inl err, w1)
      | (Inr remote, w1) \<Rightarrow> bookingInsertStep env dto event remote w1)))))"

text \<open>
  The first query of \<open>CancelMeeting\<close>: the meeting of that id joined with its event, for
  the event's owner.
\<close>

definition fetchMeeting :: "World \<Rightarrow> string \<Rightarrow> (Meeting \<times> string) option" where
  "fetchMeeting w meetingID =
     (case find (\<lambda>m. MeetingID m = meetingID) (meetings w) of
        None \<Rightarrow> None
      | Some m \<Rightarrow>
          (case find (\<lambda>e. EventID e = MeetingEventID m) (events w) of
             None \<Rightarrow> None
           | Some e \<Rightarrow> Some (m, EventUserID e)))"

text \<open>
  Step 2 of \<open>CancelMeeting\<close>, the deletion of the calendar event: every branch goes on to
  step 3, each failure is only logged, so the step returns nothing but the state.
\<close>

definition cancelCalendarStep :: "Env \<Rightarrow> Meeting \<Rightarrow> string \<Rightarrow> Time \<Rightarrow> World \<Rightarrow> World" where
  "cancelCalendarStep env meeting eventUserID now w =
     (if CalendarEventID meeting \<noteq> [] \<and> CalendarAppType meeting \<noteq> [] then
        (case GetContext env IntegrationQuery
                (findIntegration w eventUserID (CalendarAppType meeting)) of
           Inl e \<Rightarrow> w
         | Inr integration \<Rightarrow>
             (case GetCalendarClient env integration now w of
                (Inl errClient, w1) \<Rightarrow> w1
              | (Inr (calendarSvc, appType), w1) \<Rightarrow>
                  (let w2 = w1\<lparr>providerCalls := providerCalls w1
                                  @ [EventsDeleteCall calendarSvc (CalendarEventID meeting)]\<rparr>
                   in case eventsDelete env calendarSvc (CalendarEventID meeting) of
                        Some errDelete \<Rightarrow> w2
                      | None \<Rightarrow> w2)))
      else w)"

text \<open>
  Step 3, \<open>UPDATE meetings SET status = $1 WHERE id = $2\<close>: the table after it and the
  number of rows affected.
\<close>

definition updateMeetingStatus :: "MeetingStatus \<Rightarrow> string \<Rightarrow> Meeting list \<Rightarrow> Meeting list" where
  "updateMeetingStatus status meetingID ms =
     map (\<lambda>m. if MeetingID m = meetingID then m\<lparr>Status := status\<rparr> else m) ms"

definition rowsAffected :: "string \<Rightarrow> Meeting list \<Rightarrow> nat" where
  "rowsAffected meetingID ms = length (filter (\<lambda>m. MeetingID m = meetingID) ms)"

definition CancelMeeting :: "Env \<Rightarrow> string \<Rightarrow> Time \<Rightarrow> World \<Rightarrow> (GoError + string) \<times> World" where
  "CancelMeeting env meetingID now w =
     (if meetingID = [] then
        (Inl (NewAppError BadRequest ''Missing meetingId in path'' None), w)
      else
     (case GetContext env FetchMeetingQuery (fetchMeeting w meetingID) of
        Inl ErrNoRows \<Rightarrow> (Inl (NewNotFoundError ''Meeting'' None), w)
      | Inl e \<Rightarrow>
          (Inl (NewAppError InternalServerError ''Failed to fetch meeting'' (Some (DBErr e))), w)
      | Inr (meeting, eventUserID) \<Rightarrow>
          if Status meeting = Cancelled then
            (Inl (NewAppError BadRequest ''Meeting is already cancelled'' None), w)
          else
            (let w1 = cancelCalendarStep env meeting eventUserID now w in
             case dbFault env UpdateMeetingQuery of
               Some e \<Rightarrow>
                 (Inl (NewAppError InternalServerError ''Failed to update meeting status''
                         (Some (DBErr e))), w1)
             | None \<Rightarrow>
                 if rowsAffected meetingID (meetings w1) = 0 then
                   (Inl (NewNotFoundError ''Meeting (for update)'' None), w1)
                 else
                   (Inr ''Meeting cancelled successfully'',
                    w1\<lparr>meetings := updateMeetingStatus Cancelled meetingID (meetings w1)\<rparr>))))"

section \<open>Availability of a public event\<close>

text \<open>The first query: the rows of the join \<open>WHERE e.id = $1 AND e.is_private = FALSE\<close>.\<close>

definition eventAvailabilityQuery :: "World \<Rightarrow> string \<Rightarrow> EventAvailabilityRow list" where
  "eventAvailabilityQuery w eventID =
     filter (\<lambda>row. EventID (RowEvent row) = eventID \<and> \<not> IsPrivate (RowEvent row))
       (eventAvailability w)"

text \<open>The table \<open>days\<close> of \<open>GetNextDateForDay\<close>, with \<open>time.Weekday\<close> as its number.\<close>

definition days :: "(DayOfWeek \<times> int) list" where
  "days = [(Sunday, 0), (Monday, 1), (Tuesday, 2), (Wednesday, 3), (Thursday, 4), (Friday, 5),
           (Saturday, 6)]"

definition GetNextDateForDay :: "DayOfWeek \<Rightarrow> Time \<Rightarrow> string + Time" where
  "GetNextDateForDay dayOfWeek now =
     (case map_of days dayOfWeek of
        None \<Rightarrow> Inl (''invalid day of week: '' @ dayOfWeek)
      | Some targetWeekDay \<Rightarrow>
          (let today = now;
               todayWeekDay = Weekday today;
               daysUntilTarget = (targetWeekDay - todayWeekDay + 7) mod 7;
               nextDate = AddDays today daysUntilTarget
           in Inr (DateAt nextDate 0 0)))"

text \<open>\<open>time.Time{}\<close>, midnight of 1 January of year 1.\<close>

definition zeroTime :: Time where
  "zeroTime = Unix (- 62135596800)"

text \<open>
  The map \<open>datesToCheck\<close>: every weekday gets an entry, the zero time when
  \<open>GetNextDateForDay\<close> fails.
\<close>

definition datesToCheck :: "Time \<Rightarrow> DayOfWeek \<Rightarrow> Time option" where
  "datesToCheck now =
     foldl (\<lambda>m day. m(day \<mapsto> (case GetNextDateForDay day now of
                                  Inl errDate \<Rightarrow> zeroTime | Inr date \<Rightarrow> date)))
       Map.empty AllDayOfWeek"

record AvailabilityDetail =
  RuleTimeGap :: "64 word"
  RuleDay :: DayOfWeek
  RuleStartTime :: string
  RuleEndTime :: string
  RuleIsAvailable :: bool

text \<open>The map \<open>dayRules\<close>: a later row of a day replaces an earlier one.\<close>

definition dayRules ::
  "64 word \<Rightarrow> EventAvailabilityRow list \<Rightarrow> DayOfWeek \<Rightarrow> AvailabilityDetail option"
where
  "dayRules timeGap dbResult =
     foldl (\<lambda>m row. if AvailabilityID row \<noteq> None \<and> RowDay row \<noteq> [] then
                       m(RowDay row \<mapsto> \<lparr>RuleTimeGap = timeGap, RuleDay = RowDay row,
                                        RuleStartTime = RowStartTime row,
                                        RuleEndTime = RowEndTime row,
                                        RuleIsAvailable = RowIsAvailable row\<rparr>)
                     else m)
       Map.empty dbResult"

record DailyAvailabilitySlots =
  Day :: DayOfWeek
  Slots :: "string list"
  IsAvailable :: bool

text \<open>
  The query of step 3,
  \<open>SELECT ... FROM meetings WHERE user_id = $1 AND start_time < $2 AND end_time > $3\<close>,
  and the filter of the meetings of one date in step 4.
\<close>

definition meetingsQuery :: "string \<Rightarrow> Time \<Rightarrow> Time \<Rightarrow> Meeting list \<Rightarrow> Meeting list" where
  "meetingsQuery userID dateRangeEnd dateRangeStart ms =
     filter (\<lambda>m. MeetingUserID m = userID \<and> StartTime m < dateRangeEnd
                  \<and> EndTime m > dateRangeStart) ms"

definition meetingsForThisDate :: "Meeting list \<Rightarrow> Time \<Rightarrow> Meeting list" where
  "meetingsForThisDate meetingsInRange targetDate =
     (let dayStart = targetDate; dayEnd = AddDays targetDate 1
      in filter (\<lambda>m. StartTime m < dayEnd \<and> EndTime m > dayStart) meetingsInRange)"

text \<open>
  The loop of step 4 over the weekdays. It returns no list when the slot generator of some
  day does not return.
\<close>

fun dailySlots ::
  "(DayOfWeek \<Rightarrow> Time option) \<Rightarrow> (DayOfWeek \<Rightarrow> AvailabilityDetail option) \<Rightarrow> 64 word
     \<Rightarrow> 64 word \<Rightarrow> Meeting list \<Rightarrow> Time \<Rightarrow> DayOfWeek list \<Rightarrow> DailyAvailabilitySlots list option"
where
  "dailySlots dates rules duration timeGap meetingsInRange now [] = Some []"
| "dailySlots dates rules duration timeGap meetingsInRange now (dayOfWeek # rest) =
     (case dates dayOfWeek of
        None \<Rightarrow> dailySlots dates rules duration timeGap meetingsInRange now rest
      | Some targetDate \<Rightarrow>
          (case rules dayOfWeek of
             None \<Rightarrow>
               map_option ((#) \<lparr>Day = dayOfWeek, Slots = [], IsAvailable = False\<rparr>)
                 (dailySlots dates rules duration timeGap meetingsInRange now rest)
           | Some rule \<Rightarrow>
               if RuleIsAvailable rule then
                 (case GenerateAvailableTimeSlots (RuleStartTime rule) (RuleEndTime rule)
                         duration timeGap (meetingsForThisDate meetingsInRange targetDate)
                         targetDate now of
                    None \<Rightarrow> None
                  | Some (Inl errSlots) \<Rightarrow>
                      map_option ((#) \<lparr>Day = dayOfWeek, Slots = [], IsAvailable = True\<rparr>)
                        (dailySlots dates rules duration timeGap meetingsInRange now rest)
                  | Some (Inr slots) \<Rightarrow>
                      map_option ((#) \<lparr>Day = dayOfWeek, Slots = slots, IsAvailable = True\<rparr>)
                        (dailySlots dates rules duration timeGap meetingsInRange now rest))
               else
                 map_option ((#) \<lparr>Day = dayOfWeek, Slots = [], IsAvailable = False\<rparr>)
                   (dailySlots dates rules duration timeGap meetingsInRange now rest)))"

text \<open>
  \<open>GetPublicEventAvailability\<close>: \<open>Inl\<close> is the error given to \<open>WriteError\<close>, \<open>Inr\<close> the
  \<open>data\<close> of the 200 response.
\<close>

definition GetPublicEventAvailability ::
  "Env \<Rightarrow> string \<Rightarrow> Time \<Rightarrow> World \<Rightarrow> (GoError + DailyAvailabilitySlots list) option"
where
  "GetPublicEventAvailability env eventID now w =
     (if eventID = [] then Some (Inl (NewAppError BadRequest ''Missing eventId in path'' None))
      else
     (case dbFault env EventAvailabilityQuery of
        Some ErrNoRows \<Rightarrow> Some (Inl (NewNotFoundError ''Public event'' None))
      | Some e \<Rightarrow>
          Some (Inl (NewAppError InternalServerError ''Failed to fetch event and availabilty''
                       (Some (DBErr e))))
      | None \<Rightarrow>
          (let dbResult = eventAvailabilityQuery w eventID in
           if dbResult = [] \<or> AvailabilityID (hd dbResult) = None then
             Some (Inl (NewAppError BadRequest ''Event found but no availability for user'' None))
           else
             (let event = RowEvent (hd dbResult);
                  timeGap = (case TimeGap (hd dbResult) of None \<Rightarrow> 0 | Some g \<Rightarrow> g);
                  userID = EventUserID event;
                  dateRangeStart = now;
                  dateRangeEnd = AddDays dateRangeStart 7
              in case dbFault env MeetingsInRangeQuery of
                   Some (ConstraintViolation msg) \<Rightarrow>
                     Some (Inl (NewAppError InternalServerError ''Failed to fetch meetings''
                                  (Some (DBErr (ConstraintViolation msg)))))
                 | Some (StorageFailure msg) \<Rightarrow>
                     Some (Inl (NewAppError InternalServerError ''Failed to fetch meetings''
                                  (Some (DBErr (StorageFailure msg)))))
                 | Some ErrNoRows \<Rightarrow>
                     map_option Inr
                       (dailySlots (datesToCheck now) (dayRules timeGap dbResult)
                          (Duration event) timeGap [] now AllDayOfWeek)
                 | None \<Rightarrow>
                     map_option Inr
                       (dailySlots (datesToCheck now) (dayRules timeGap dbResult)
                          (Duration event) timeGap
                          (meetingsQuery userID dateRangeEnd dateRangeStart (meetings w))
                          now AllDayOfWeek)))))"

section \<open>Example data\<close>

text \<open>
  One owner \<open>u1\<close> with one public event \<open>e1\<close> of 60 minutes, a connected integration whose
  stored access token expired at the epoch, and a meeting \<open>m1\<close> of that event from 10:00
  to 11:00 on the day of the epoch (a Thursday), with a calendar event.
\<close>

definition exampleEvent :: "string \<Rightarrow> Event" where
  "exampleEvent loc =
     \<lparr>EventID = ''e1'', EventUserID = ''u1'', Title = ''Intro call'', Description = [],
      Duration = 60, Slug = ''intro-call'', IsPrivate = False, LocationType = loc\<rparr>"

definition exampleIntegration :: "string \<Rightarrow> Integration" where
  "exampleIntegration app =
     \<lparr>IntegrationUserID = ''u1'', AppType = app, AccessToken = Some ''old-access'',
      RefreshToken = Some ''refresh-1'', ExpiryDate = Some 0, IsConnected = True,
      UserEmail = []\<rparr>"

definition exampleMeeting :: "MeetingStatus \<Rightarrow> Meeting" where
  "exampleMeeting st =
     \<lparr>MeetingID = ''m1'', MeetingUserID = ''u1'', MeetingEventID = ''e1'', GuestName = ''Ann'',
      GuestEmail = ''ann@example.org'', AdditionalInfo = [],
      StartTime = 36000000000000, EndTime = 39600000000000,
      MeetLink = ''https://meet.example/abc'', CalendarEventID = ''cal1'',
      CalendarAppType = AppGoogleMeetAndCalendar, Status = st\<rparr>"

text \<open>A row of the availability join: the event with the rule of one day, gap 60.\<close>

definition exampleRow :: "DayOfWeek \<Rightarrow> string \<Rightarrow> string \<Rightarrow> EventAvailabilityRow" where
  "exampleRow day startTime endTime =
     \<lparr>RowEvent = exampleEvent LocationGoogleMeetAndCalendar, AvailabilityID = Some ''a1'',
      TimeGap = Some 60, RowDay = day, RowStartTime = startTime, RowEndTime = endTime,
      RowIsAvailable = True\<rparr>"

definition exampleWorld :: "string \<Rightarrow> Meeting list \<Rightarrow> EventAvailabilityRow list \<Rightarrow> World" where
  "exampleWorld loc ms rows =
     \<lparr>events = [exampleEvent loc], integrations = [exampleIntegration loc], meetings = ms,
      eventAvailability = rows, providerCalls = []\<rparr>"

definition exampleDto :: CreateMeetingDto where
  "exampleDto =
     \<lparr>DtoEventID = ''e1'', DtoStartTime = 50400000000000, DtoEndTime = 54000000000000,
      DtoGuestName = ''Bob'', DtoGuestEmail = ''bob@example.org'', DtoAdditionalInfo = ''hello''\<rparr>"

text \<open>
  An environment with the given storage faults and the given answers of the provider's
  token endpoint, event creation and event deletion.
\<close>

definition exampleEnv ::
  "(Query \<Rightarrow> DBError option) \<Rightarrow> (string + Token) \<Rightarrow> (string + CreatedCalendarEvent)
     \<Rightarrow> string option \<Rightarrow> Env"
where
  "exampleEnv faults tokenAnswer insertAnswer deleteAnswer =
     \<lparr>dbFault = faults, generatedID = ''m2'',
      tokenSourceToken = (\<lambda>token. tokenAnswer),
      calendarNewService = None,
      eventsInsert = (\<lambda>svc ev. insertAnswer),
      eventsDelete = (\<lambda>svc calendarEventID. deleteAnswer)\<rparr>"

definition noFault :: "Query \<Rightarrow> DBError option" where
  "noFault q = None"

definition refreshedToken :: Token where
  "refreshedToken =
     \<lparr>TokenAccessToken = ''new-access'', TokenRefreshToken = ''refresh-2'',
      TokenExpiry = Some 3600000000000\<rparr>"

definition createdEvent :: CreatedCalendarEvent where
  "createdEvent = \<lparr>CreatedId = ''cal2'', HangoutLink = ''https://meet.example/xyz''\<rparr>"

definition okEnv :: Env where
  "okEnv = exampleEnv noFault (Inr refreshedToken) (Inr createdEvent) None"



text \<open>The insert of the meeting violates an exclusion constraint; no other query fails.\<close>

definition constraintFault :: "Query \<Rightarrow> DBError option" where
  "constraintFault q =
     (case q of
        InsertMeetingQuery \<Rightarrow> Some (ConstraintViolation ''conflicting key value violates exclusion constraint'')
      | _ \<Rightarrow> None)"

definition conflictEnv :: Env where
  "conflictEnv = exampleEnv constraintFault (Inr refreshedToken) (Inr createdEvent) None"

definition googleWorld :: "Meeting list \<Rightarrow> EventAvailabilityRow list \<Rightarrow> World" where
  "googleWorld ms rows = exampleWorld LocationGoogleMeetAndCalendar ms rows"

definition zoomWorld :: "Meeting list \<Rightarrow> EventAvailabilityRow list \<Rightarrow> World" where
  "zoomWorld ms rows = exampleWorld LocationZoomMeeting ms rows"

section \<open>The slot loop: when it returns and when it does not\<close>

lemma slotLoop_returns:
  "0 < gap \<Longrightarrow> \<exists>r. slotLoop duration gap b now ms cur acc = Some r"
proof (induction "nat (b - cur)" arbitrary: cur acc rule: less_induct)
  case less
  show ?case
  proof (cases "cur < b \<and> \<not> cur + duration > b")
    case True
    then have "nat (b - (cur + gap)) < nat (b - cur)"
      using less.prems by simp
    from less.hyps [OF this less.prems]
    show ?thesis using True by (subst slotLoop.simps) simp
  next
    case False
    then show ?thesis by (subst slotLoop.simps) auto
  qed
qed

lemma slotLoop_stuck:
  assumes "slotLoop duration gap b now ms cur acc = Some r"
  shows "\<not> (gap \<le> 0 \<and> cur < b \<and> cur + duration \<le> b)"
proof (rule slotLoop.raw_induct
    [where P = "\<lambda>duration gap b now ms cur acc r. \<not> (gap \<le> 0 \<and> cur < b \<and> cur + duration \<le> b)",
     OF _ assms])
  fix loop duration gap b now ms cur acc r
  assume IH: "\<And>duration gap b now ms cur acc r. loop duration gap b now ms cur acc = Some r
      \<Longrightarrow> \<not> (gap \<le> 0 \<and> cur < b \<and> cur + duration \<le> b)"
    and eq: "(if cur < b then
        (if cur + duration > b then Some acc
         else loop duration gap b now ms (cur + gap)
                (if (cur > now \<or> cur = now) \<and> IsSlotAvailable cur (cur + duration) ms
                 then acc @ [FormatHM cur] else acc))
      else Some acc) = Some r"
  show "\<not> (gap \<le> 0 \<and> cur < b \<and> cur + duration \<le> b)"
  proof
    assume st: "gap \<le> 0 \<and> cur < b \<and> cur + duration \<le> b"
    with eq obtain acc' where "loop duration gap b now ms (cur + gap) acc' = Some r"
      by (auto split: if_splits)
    from IH [OF this] st show False by simp
  qed
qed

lemma minutesDuration_exact:
  assumes "0 < sint n" and "sint n \<le> 153722867"
  shows "minutesDuration n = 60000000000 * sint n"
proof -
  have "sint ((60000000000 :: 64 word) * n)
      = signed_take_bit 63 (sint (60000000000 :: 64 word) * sint n)"
    by (simp add: sint_word_ariths)
  also have "sint (60000000000 :: 64 word) = 60000000000"
    by simp
  also have "signed_take_bit 63 (60000000000 * sint n) = 60000000000 * sint n"
    using assms by (intro signed_take_bit_int_eq_self) auto
  finally show ?thesis
    by (simp add: minutesDuration_def)
qed

lemma gap_positive:
  assumes "sint timeGapMinutes \<le> 153722867"
  shows "0 < minutesDuration (if sint timeGapMinutes \<le> 0 then 30 else timeGapMinutes)"
proof (cases "sint timeGapMinutes \<le> 0")
  case True
  then show ?thesis by (simp add: minutesDuration_def)
next
  case False
  then show ?thesis using assms by (simp add: minutesDuration_exact)
qed

lemma GenerateAvailableTimeSlots_returns:
  assumes "sint timeGapMinutes \<le> 153722867"
  shows "\<exists>r. GenerateAvailableTimeSlots dayStartTimeStr dayEndTimeStr durationMinutes
             timeGapMinutes meetingsOnDate targetDate now = Some r"
proof -
  note g = gap_positive [OF assms]
  show ?thesis
    unfolding GenerateAvailableTimeSlots_def Let_def
    using slotLoop_returns [OF g]
    by (auto split: option.splits)
qed

section \<open>The tables under the provider steps\<close>










section \<open>Claims about the slot generator\<close>

text \<open>
  Claim C1: every slot that \<open>GenerateAvailableTimeSlots\<close> emits lies within the day's
  window from the open time to the close time and overlaps no booked meeting. The code
  builds the first slot start from the hour of the open time and the minute of the close
  time (\<open>dayEndParsed.Minute()\<close> where \<open>dayStartParsed.Minute()\<close> is meant). With the
  window 09:30 to 10:00, slots of 30 minutes every 30 minutes and no meeting, on the day of
  the epoch with the clock at its midnight, the generator emits 09:00 first, half an hour
  before the open time.
\<close>

theorem GenerateAvailableTimeSlots_slot_before_open:
  "ParseDBTime ''09:30:00'' = Some (9, 30)
   \<and> GenerateAvailableTimeSlots ''09:30:00'' ''10:00:00'' 30 30 [] 0 0
       = Some (Inr [''09:00'', ''09:30''])"
  by code_simp

text \<open>
  Claim C10, as stated: \<open>GenerateAvailableTimeSlots\<close> terminates for every input. It does
  not: the gap in minutes is multiplied by \<open>time.Minute\<close> in 64 bits, and a positive gap of
  \<open>2 ^ 53\<close> minutes gives the duration 0, so the cursor stays at 09:00 for ever.
\<close>

theorem GenerateAvailableTimeSlots_diverges:
  "GenerateAvailableTimeSlots ''09:00:00'' ''17:00:00'' 30 9007199254740992 [] 0 0 = None"
proof -
  have "slotLoop 1800000000000 0 61200000000000 0 [] 32400000000000 [] = None"
    using slotLoop_stuck [of 1800000000000 0 61200000000000 0 "[]" 32400000000000 "[]"]
    by (cases "slotLoop 1800000000000 0 61200000000000 0 [] 32400000000000 []") auto
  then show ?thesis
    by (simp add: GenerateAvailableTimeSlots_def ParseDBTime_def isDigit_def digitVal_def
        DateAt_def DayNs_def Minute_def minutesDuration_def)
qed

text \<open>
  Claim C10, amended: for every input whose gap is at most 153722867 minutes, the largest
  whose nanoseconds fit in 64 bits (a non-positive gap or duration included),
  \<open>GenerateAvailableTimeSlots\<close> terminates: a gap of 0 or less is replaced by 30 minutes,
  so the cursor increases by a positive duration in every round and reaches the day-end
  boundary.
\<close>

theorem GenerateAvailableTimeSlots_terminates:
  assumes "sint timeGapMinutes \<le> 153722867"
  shows "\<exists>r. GenerateAvailableTimeSlots dayStartTimeStr dayEndTimeStr durationMinutes
             timeGapMinutes meetingsOnDate targetDate now = Some r"
  using assms by (rule GenerateAvailableTimeSlots_returns)

theorem GenerateAvailableTimeSlots_terminates_witness:
  "sint (0 :: 64 word) \<le> 153722867
   \<and> (\<exists>r. GenerateAvailableTimeSlots ''09:00:00'' ''17:00:00'' (- 60) 0 [] 0 0 = Some r)"
  using GenerateAvailableTimeSlots_terminates
    [of 0 "''09:00:00''" "''17:00:00''" "- 60" "[]" 0 0]
  by simp

section \<open>Claims about the credential refresh\<close>

text \<open>
  Claim C8: when the stored refresh token is empty, \<open>ValidateGoogleToken\<close> returns the
  access token it was given, unchanged and without error, whatever the expiry and the
  clock, and makes no call to the provider: the state, with its list of provider calls, is
  the one it started from.
\<close>

theorem ValidateGoogleToken_no_refresh_token:
  "ValidateGoogleToken env accessToken [] expiryDateUnix now w = (Inr accessToken, w)"
  by (simp add: ValidateGoogleToken_def)

text \<open>
  Claim C3: when the refresh inside \<open>GetCalendarClient\<close> yields an access token other than
  the stored one, the new token is persisted before the request relies on it. The code
  says so itself (the comment in \<open>ValidateGoogleToken\<close> that the new token should be
  persisted there, and \<open>UpdateIntegrationToken\<close>, which no function calls) but does not do
  it. With the stored token \<open>old-access\<close> and a token source that answers \<open>new-access\<close>,
  the client is built on the new token, a booking request succeeds with it, and the
  integrations table still holds \<open>old-access\<close> afterwards.
\<close>

theorem GetCalendarClient_refreshed_token_not_stored:
  "tokenSourceToken okEnv
      \<lparr>TokenAccessToken = ''old-access'', TokenRefreshToken = ''refresh-1'',
       TokenExpiry = Some 0\<rparr> = Inr refreshedToken
   \<and> fst (GetCalendarClient okEnv (exampleIntegration AppGoogleMeetAndCalendar) 7200000000000
            (googleWorld [] []))
       = Inr (\<lparr>TokenAccessToken = ''new-access'', TokenRefreshToken = ''refresh-1'',
               TokenExpiry = Some 0\<rparr>, AppGoogleMeetAndCalendar)
   \<and> integrations (snd (GetCalendarClient okEnv (exampleIntegration AppGoogleMeetAndCalendar)
                           7200000000000 (googleWorld [] [])))
       = [exampleIntegration AppGoogleMeetAndCalendar]
   \<and> \<not> isl (fst (CreateBooking okEnv (Some exampleDto) 7200000000000 (googleWorld [] [])))
   \<and> map AccessToken (integrations (snd (CreateBooking okEnv (Some exampleDto) 7200000000000
                                            (googleWorld [] []))))
       = [Some ''old-access'']"
  by code_simp

section \<open>Claims about booking\<close>

text \<open>
  Claim C4, as stated: a constraint violation at the insert of the meeting is surfaced as a
  distinct "slot no longer available" conflict, not as an internal error. It is not: the
  response to a violated exclusion constraint is the \<open>InternalServerError\<close> with the text
  "Failed to save meeting record" and status 500, the same as for a lost connection.
\<close>

theorem CreateBooking_constraint_violation_internal:
  "fst (CreateBooking conflictEnv (Some exampleDto) 0 (zoomWorld [] []))
     = Inl (AppError InternalServerError ''Failed to save meeting record''
              (Some (DBErr (ConstraintViolation
                 ''conflicting key value violates exclusion constraint''))))
   \<and> HTTPStatus (AppError InternalServerError ''Failed to save meeting record''
        (Some (DBErr (ConstraintViolation
           ''conflicting key value violates exclusion constraint'')))) = 500
   \<and> fst (CreateBooking (exampleEnv (\<lambda>q. case q of InsertMeetingQuery \<Rightarrow>
               Some (StorageFailure ''connection reset'') | _ \<Rightarrow> None)
             (Inr refreshedToken) (Inr createdEvent) None) (Some exampleDto) 0 (zoomWorld [] []))
     = Inl (AppError InternalServerError ''Failed to save meeting record''
              (Some (DBErr (StorageFailure ''connection reset''))))"
  by code_simp

text \<open>
  Claim C4, amended: when the insert of the meeting hits a constraint violation (two
  guests racing on the same slot), the failure is surfaced to the caller as the
  \<open>InternalServerError\<close> "Failed to save meeting record", status 500, which wraps the
  storage error: the response that every other failure \<open>e\<close> of the insert gets, not a
  distinct conflict condition.
\<close>

theorem CreateBooking_insert_failure_internal:
  assumes "GetContext env EventQuery (findEvent w (DtoEventID dto)) = Inr event"
    and "IntegrationAppTypeFromEventLocation (LocationType event) = Some requiredAppType"
    and "GetContext env IntegrationQuery
           (findIntegration w (EventUserID event) requiredAppType) = Inr integration"
    and "bookingCalendarStep env dto event integration now w = (Inr remote, w1)"
    and "dbFault env InsertMeetingQuery = Some e"
  shows "fst (CreateBooking env (Some dto) now w)
       = Inl (AppError InternalServerError ''Failed to save meeting record'' (Some (DBErr e)))
     \<and> HTTPStatus (AppError InternalServerError ''Failed to save meeting record''
                      (Some (DBErr e))) = 500"
proof -
  from assms(2) have loc: "LocationType event \<in> set AllEventLocationType"
    by (auto simp: IntegrationAppTypeFromEventLocation_def AllEventLocationType_def
        split: if_splits)
  show ?thesis
    using assms loc
    by (simp add: CreateBooking_def bookingInsertStep_def NewAppError_def HTTPStatus_def
        Let_def split: prod.splits)
qed

theorem CreateBooking_insert_failure_internal_witness:
  "GetContext conflictEnv EventQuery (findEvent (zoomWorld [] []) (DtoEventID exampleDto))
     = Inr (exampleEvent LocationZoomMeeting)
   \<and> IntegrationAppTypeFromEventLocation (LocationType (exampleEvent LocationZoomMeeting))
       = Some AppZoomMeeting
   \<and> GetContext conflictEnv IntegrationQuery
        (findIntegration (zoomWorld [] []) (EventUserID (exampleEvent LocationZoomMeeting))
           AppZoomMeeting) = Inr (exampleIntegration LocationZoomMeeting)
   \<and> bookingCalendarStep conflictEnv exampleDto (exampleEvent LocationZoomMeeting)
        (exampleIntegration LocationZoomMeeting) 0 (zoomWorld [] [])
       = (Inr ([], [], []), zoomWorld [] [])
   \<and> dbFault conflictEnv InsertMeetingQuery
       = Some (ConstraintViolation ''conflicting key value violates exclusion constraint'')
   \<and> fst (CreateBooking conflictEnv (Some exampleDto) 0 (zoomWorld [] []))
       = Inl (AppError InternalServerError ''Failed to save meeting record''
                (Some (DBErr (ConstraintViolation
                   ''conflicting key value violates exclusion constraint''))))"
proof -
  have h1: "GetContext conflictEnv EventQuery (findEvent (zoomWorld [] []) (DtoEventID exampleDto))
      = Inr (exampleEvent LocationZoomMeeting)"
    by (simp add: GetContext_def conflictEnv_def exampleEnv_def constraintFault_def findEvent_def
        zoomWorld_def exampleWorld_def exampleDto_def exampleEvent_def)
  have h2: "IntegrationAppTypeFromEventLocation (LocationType (exampleEvent LocationZoomMeeting))
      = Some AppZoomMeeting"
    by (simp add: IntegrationAppTypeFromEventLocation_def exampleEvent_def
        LocationZoomMeeting_def LocationGoogleMeetAndCalendar_def AppZoomMeeting_def
        AppGoogleMeetAndCalendar_def)
  have h3: "GetContext conflictEnv IntegrationQuery
        (findIntegration (zoomWorld [] []) (EventUserID (exampleEvent LocationZoomMeeting))
           AppZoomMeeting) = Inr (exampleIntegration LocationZoomMeeting)"
    by (simp add: GetContext_def conflictEnv_def exampleEnv_def constraintFault_def
        findIntegration_def zoomWorld_def exampleWorld_def exampleIntegration_def
        exampleEvent_def LocationZoomMeeting_def)
  have h4: "bookingCalendarStep conflictEnv exampleDto (exampleEvent LocationZoomMeeting)
        (exampleIntegration LocationZoomMeeting) 0 (zoomWorld [] [])
      = (Inr ([], [], []), zoomWorld [] [])"
    by (simp add: bookingCalendarStep_def exampleEvent_def LocationZoomMeeting_def
        LocationGoogleMeetAndCalendar_def AppZoomMeeting_def AppGoogleMeetAndCalendar_def)
  have h5: "dbFault conflictEnv InsertMeetingQuery
      = Some (ConstraintViolation ''conflicting key value violates exclusion constraint'')"
    by (simp add: conflictEnv_def exampleEnv_def constraintFault_def)
  from CreateBooking_insert_failure_internal [OF h1 h2 h3 h4 h5] h1 h2 h3 h4 h5
  show ?thesis by blast
qed



section \<open>Claims about cancelling\<close>

text \<open>
  Claim C6, as stated: cancelling a meeting that is already cancelled returns a
  \<open>ConflictError\<close>. It does not: the error has the code \<open>BadRequest\<close>, and its status is
  not 409 (\<open>BadRequest\<close> has no entry in \<open>appErrorConfig\<close>, so the status is the fallback
  500).
\<close>

theorem CancelMeeting_already_cancelled_not_conflict:
  "fst (CancelMeeting okEnv ''m1'' 0 (googleWorld [exampleMeeting Cancelled] []))
     = Inl (AppError BadRequest ''Meeting is already cancelled'' None)
   \<and> HTTPStatus (AppError BadRequest ''Meeting is already cancelled'' None) = 500
   \<and> HTTPStatus (AppError BadRequest ''Meeting is already cancelled'' None) \<noteq> StatusConflict"
  by (simp add: CancelMeeting_def GetContext_def NewAppError_def okEnv_def exampleEnv_def
      noFault_def fetchMeeting_def googleWorld_def exampleWorld_def exampleMeeting_def
      exampleEvent_def HTTPStatus_def StatusConflict_def)

text \<open>
  Claim C6, amended: cancelling a meeting whose status is already \<open>Cancelled\<close> fails with
  the application error of code \<open>BadRequest\<close> and text "Meeting is already cancelled",
  never succeeds, and leaves the state unchanged (no table is written, no call is made to
  the provider).
\<close>

theorem CancelMeeting_already_cancelled:
  assumes "meetingID \<noteq> []"
    and "dbFault env FetchMeetingQuery = None"
    and "fetchMeeting w meetingID = Some (meeting, owner)"
    and "Status meeting = Cancelled"
  shows "CancelMeeting env meetingID now w
     = (Inl (AppError BadRequest ''Meeting is already cancelled'' None), w)"
  using assms by (simp add: CancelMeeting_def GetContext_def NewAppError_def)

theorem CancelMeeting_already_cancelled_witness:
  "''m1'' \<noteq> []
   \<and> dbFault okEnv FetchMeetingQuery = None
   \<and> fetchMeeting (googleWorld [exampleMeeting Cancelled] []) ''m1''
       = Some (exampleMeeting Cancelled, ''u1'')
   \<and> Status (exampleMeeting Cancelled) = Cancelled
   \<and> CancelMeeting okEnv ''m1'' 0 (googleWorld [exampleMeeting Cancelled] [])
       = (Inl (AppError BadRequest ''Meeting is already cancelled'' None),
          googleWorld [exampleMeeting Cancelled] [])"
proof -
  have h1: "''m1'' \<noteq> []"
    by simp
  have h2: "dbFault okEnv FetchMeetingQuery = None"
    by (simp add: okEnv_def exampleEnv_def noFault_def)
  have h3: "fetchMeeting (googleWorld [exampleMeeting Cancelled] []) ''m1''
      = Some (exampleMeeting Cancelled, ''u1'')"
    by (simp add: fetchMeeting_def googleWorld_def exampleWorld_def exampleMeeting_def
        exampleEvent_def)
  have h4: "Status (exampleMeeting Cancelled) = Cancelled"
    by (simp add: exampleMeeting_def)
  from CancelMeeting_already_cancelled [OF h1 h2 h3 h4, of 0] h1 h2 h3 h4
  show ?thesis by blast
qed



section \<open>Claims about the availability of a public event\<close>

lemma GenerateAvailableTimeSlots_parse_failure:
  assumes "ParseDBTime s = None \<or> ParseDBTime e = None"
  shows "\<exists>err. GenerateAvailableTimeSlots s e d g ms t now = Some (Inl err)"
  using assms by (auto simp: GenerateAvailableTimeSlots_def split: option.splits)

lemma GenerateAvailableTimeSlots_slots_parsed:
  assumes "GenerateAvailableTimeSlots s e d g ms t now = Some (Inr slots)"
  shows "ParseDBTime s \<noteq> None \<and> ParseDBTime e \<noteq> None"
  using assms by (auto simp: GenerateAvailableTimeSlots_def split: option.splits)

lemma dailySlots_returns:
  assumes gap: "sint timeGap \<le> 153722867"
  shows "\<exists>result. dailySlots dates rules duration timeGap ms now ds = Some result
      \<and> map Day result = filter (\<lambda>d. dates d \<noteq> None) ds
      \<and> (\<forall>entry \<in> set result. \<forall>rule.
            rules (Day entry) = Some rule \<and> RuleIsAvailable rule
            \<and> (ParseDBTime (RuleStartTime rule) = None \<or> ParseDBTime (RuleEndTime rule) = None)
            \<longrightarrow> Slots entry = [] \<and> IsAvailable entry)"
proof (induction ds)
  case Nil
  show ?case by simp
next
  case (Cons d ds)
  from Cons.IH obtain rest where
    rest: "dailySlots dates rules duration timeGap ms now ds = Some rest"
    and days: "map Day rest = filter (\<lambda>d. dates d \<noteq> None) ds"
    and fails: "\<forall>entry \<in> set rest. \<forall>rule.
            rules (Day entry) = Some rule \<and> RuleIsAvailable rule
            \<and> (ParseDBTime (RuleStartTime rule) = None \<or> ParseDBTime (RuleEndTime rule) = None)
            \<longrightarrow> Slots entry = [] \<and> IsAvailable entry"
    by blast
  show ?case
  proof (cases "dates d")
    case None
    then show ?thesis using rest days fails by simp
  next
    case (Some targetDate)
    show ?thesis
    proof (cases "rules d")
      case None
      then show ?thesis using Some rest days fails by simp
    next
      case rule: (Some rule)
      show ?thesis
      proof (cases "RuleIsAvailable rule")
        case False
        then show ?thesis using Some rule rest days fails by simp
      next
        case True
        from GenerateAvailableTimeSlots_returns [OF gap]
        obtain r where r: "GenerateAvailableTimeSlots (RuleStartTime rule) (RuleEndTime rule)
            duration timeGap (meetingsForThisDate ms targetDate) targetDate now = Some r"
          by blast
        show ?thesis
        proof (cases r)
          case (Inl err)
          then show ?thesis using Some rule True r rest days fails by simp
        next
          case (Inr slots)
          with r GenerateAvailableTimeSlots_slots_parsed
          have "ParseDBTime (RuleStartTime rule) \<noteq> None \<and> ParseDBTime (RuleEndTime rule) \<noteq> None"
            by blast
          then show ?thesis using Some rule True r Inr rest days fails by auto
        qed
      qed
    qed
  qed
qed

lemma datesToCheck_all: "filter (\<lambda>d. datesToCheck now d \<noteq> None) AllDayOfWeek = AllDayOfWeek"
  by (simp add: datesToCheck_def AllDayOfWeek_def Sunday_def Monday_def Tuesday_def
      Wednesday_def Thursday_def Friday_def Saturday_def)

text \<open>
  Claim C2: only meetings with status \<open>Scheduled\<close> are fetched and used to exclude slots;
  a cancelled meeting never causes a slot to be excluded. The query of step 3 has no
  condition on the status (the queries of \<open>GetUserMeetings\<close> on the same table have one),
  so the cancelled meeting from 10:00 to 11:00 is fetched and the slot 10:00 of that
  Thursday is missing; without the meeting the slot is offered.
\<close>

theorem GetPublicEventAvailability_cancelled_meeting_blocks_slot:
  "Status (exampleMeeting Cancelled) = Cancelled
   \<and> meetingsQuery ''u1'' (AddDays 0 7) 0 [exampleMeeting Cancelled] = [exampleMeeting Cancelled]
   \<and> map_option (map_sum id (map Slots))
        (GetPublicEventAvailability okEnv ''e1'' 0
          (googleWorld [exampleMeeting Cancelled] [exampleRow Thursday ''09:00:00'' ''12:00:00'']))
       = Some (Inr [[], [], [], [], [''09:00'', ''11:00''], [], []])
   \<and> map_option (map_sum id (map Slots))
        (GetPublicEventAvailability okEnv ''e1'' 0
          (googleWorld [] [exampleRow Thursday ''09:00:00'' ''12:00:00'']))
       = Some (Inr [[], [], [], [], [''09:00'', ''10:00'', ''11:00''], [], []])"
  by code_simp

text \<open>
  Claim C9, as stated: for every availability request, if slot generation fails for one
  day, that day is reported with an empty slot list and the request still succeeds, with
  entries for the remaining days. It does not for every request: with the stored time gap
  2147483647 (the validation of the gap only asks for 0 or more) the product with
  \<open>time.Minute\<close> wraps to a negative duration. The rule of Thursday, the day of the
  request, does not parse; on Friday the cursor of the generator walks backwards from
  09:00 for ever, and the request never returns.
\<close>

theorem GetPublicEventAvailability_failed_day_hangs:
  "ParseDBTime ''9am'' = None
   \<and> GetPublicEventAvailability okEnv ''e1'' 0
        (googleWorld [] [(exampleRow Thursday ''9am'' ''12:00:00'')\<lparr>TimeGap := Some 2147483647\<rparr>,
                         exampleRow Friday ''09:00:00'' ''12:00:00''])
       = None"
proof -
  have p: "ParseDBTime ''9am'' = None"
    by (simp add: ParseDBTime_def isDigit_def digitVal_def)
  have "slotLoop 3600000000000 (- 278189695966861312) 129600000000000 0 [] 118800000000000 []
      = None"
    using slotLoop_stuck [of 3600000000000 "- 278189695966861312" 129600000000000 0 "[]"
        118800000000000 "[]"]
    by (cases "slotLoop 3600000000000 (- 278189695966861312) 129600000000000 0 []
        118800000000000 []") auto
  then have g: "GenerateAvailableTimeSlots ''09:00:00'' ''12:00:00'' 60 2147483647 []
      86400000000000 0 = None"
    by (simp add: GenerateAvailableTimeSlots_def ParseDBTime_def isDigit_def digitVal_def
        DateAt_def DayNs_def Minute_def minutesDuration_def)
  have d: "datesToCheck 0 Friday = Some 86400000000000"
    by code_simp
  have r: "dayRules 2147483647
      [(exampleRow Thursday ''9am'' ''12:00:00'')\<lparr>TimeGap := Some 2147483647\<rparr>,
       exampleRow Friday ''09:00:00'' ''12:00:00''] Friday
      = Some \<lparr>RuleTimeGap = 2147483647, RuleDay = Friday, RuleStartTime = ''09:00:00'',
              RuleEndTime = ''12:00:00'', RuleIsAvailable = True\<rparr>"
    by (simp add: dayRules_def exampleRow_def Thursday_def Friday_def)
  have f: "dailySlots (datesToCheck 0)
      (dayRules 2147483647
        [(exampleRow Thursday ''9am'' ''12:00:00'')\<lparr>TimeGap := Some 2147483647\<rparr>,
         exampleRow Friday ''09:00:00'' ''12:00:00''])
      60 2147483647 [] 0 (Friday # rest) = None" for rest
    by (simp add: d r g meetingsForThisDate_def)
  have a: "dailySlots dates rules duration gap ms now ds = None
      \<Longrightarrow> dailySlots dates rules duration gap ms now (day # ds) = None"
    for dates rules duration gap ms now ds day
    by (simp split: option.splits sum.splits)
  have "dailySlots (datesToCheck 0)
      (dayRules 2147483647
        [(exampleRow Thursday ''9am'' ''12:00:00'')\<lparr>TimeGap := Some 2147483647\<rparr>,
         exampleRow Friday ''09:00:00'' ''12:00:00''])
      60 2147483647 [] 0 AllDayOfWeek = None"
    unfolding AllDayOfWeek_def
    by (intro a f)
  then have "GetPublicEventAvailability okEnv ''e1'' 0
        (googleWorld [] [(exampleRow Thursday ''9am'' ''12:00:00'')\<lparr>TimeGap := Some 2147483647\<rparr>,
                         exampleRow Friday ''09:00:00'' ''12:00:00''])
       = None"
    by (simp add: GetPublicEventAvailability_def okEnv_def exampleEnv_def noFault_def
        eventAvailabilityQuery_def googleWorld_def exampleWorld_def exampleRow_def
        exampleEvent_def meetingsQuery_def Let_def)
  with p show ?thesis
    by simp
qed

text \<open>
  Claim C9, amended: for every availability request whose time gap is at most 153722867
  minutes (the largest whose nanoseconds fit in 64 bits, so that the generator returns on
  every day), if slot generation fails for a day (a stored time that does not parse), that
  day is reported with an empty slot list and the request still succeeds, with an entry
  for each of the seven weekdays in order. The request is one that reaches the slot
  generation: an event id, both queries answered, availability configured.
\<close>

theorem GetPublicEventAvailability_failed_day_empty:
  assumes "eventID \<noteq> []"
    and "dbFault env EventAvailabilityQuery = None"
    and "dbFault env MeetingsInRangeQuery = None"
    and "eventAvailabilityQuery w eventID = row # rows"
    and "AvailabilityID row \<noteq> None"
    and "timeGap = (case TimeGap row of None \<Rightarrow> 0 | Some g \<Rightarrow> g)"
    and "sint timeGap \<le> 153722867"
  shows "\<exists>result. GetPublicEventAvailability env eventID now w = Some (Inr result)
     \<and> map Day result = AllDayOfWeek
     \<and> (\<forall>entry \<in> set result. \<forall>rule.
           dayRules timeGap (row # rows) (Day entry) = Some rule \<and> RuleIsAvailable rule
           \<and> (ParseDBTime (RuleStartTime rule) = None \<or> ParseDBTime (RuleEndTime rule) = None)
           \<longrightarrow> Slots entry = [] \<and> IsAvailable entry)"
proof -
  let ?ms = "meetingsQuery (EventUserID (RowEvent row)) (AddDays now 7) now (meetings w)"
  from dailySlots_returns [OF assms(7), of "datesToCheck now" "dayRules timeGap (row # rows)"
      "Duration (RowEvent row)" ?ms now AllDayOfWeek]
  obtain result where
    res: "dailySlots (datesToCheck now) (dayRules timeGap (row # rows)) (Duration (RowEvent row))
            timeGap ?ms now AllDayOfWeek = Some result"
    and days: "map Day result = filter (\<lambda>d. datesToCheck now d \<noteq> None) AllDayOfWeek"
    and fails: "\<forall>entry \<in> set result. \<forall>rule.
           dayRules timeGap (row # rows) (Day entry) = Some rule \<and> RuleIsAvailable rule
           \<and> (ParseDBTime (RuleStartTime rule) = None \<or> ParseDBTime (RuleEndTime rule) = None)
           \<longrightarrow> Slots entry = [] \<and> IsAvailable entry"
    by blast
  have "GetPublicEventAvailability env eventID now w = Some (Inr result)"
    using assms(1-5) res
    by (simp add: GetPublicEventAvailability_def Let_def assms(6) [symmetric])
  with days fails show ?thesis
    by (simp add: datesToCheck_all del: not_None_eq)
qed

theorem GetPublicEventAvailability_failed_day_empty_witness:
  "''e1'' \<noteq> []
   \<and> dbFault okEnv EventAvailabilityQuery = None
   \<and> dbFault okEnv MeetingsInRangeQuery = None
   \<and> eventAvailabilityQuery
        (googleWorld [] [exampleRow Thursday ''9am'' ''12:00:00'',
                         exampleRow Friday ''09:00:00'' ''12:00:00'']) ''e1''
       = [exampleRow Thursday ''9am'' ''12:00:00'', exampleRow Friday ''09:00:00'' ''12:00:00'']
   \<and> AvailabilityID (exampleRow Thursday ''9am'' ''12:00:00'') \<noteq> None
   \<and> sint (60 :: 64 word) \<le> 153722867
   \<and> ParseDBTime ''9am'' = None
   \<and> (\<exists>result. GetPublicEventAvailability okEnv ''e1'' 0
          (googleWorld [] [exampleRow Thursday ''9am'' ''12:00:00'',
                           exampleRow Friday ''09:00:00'' ''12:00:00'']) = Some (Inr result)
        \<and> map Day result = AllDayOfWeek)
   \<and> map_option (map_sum id (map Slots))
        (GetPublicEventAvailability okEnv ''e1'' 0
          (googleWorld [] [exampleRow Thursday ''9am'' ''12:00:00'',
                           exampleRow Friday ''09:00:00'' ''12:00:00'']))
       = Some (Inr [[], [], [], [], [], [''09:00'', ''10:00'', ''11:00''], []])"
proof -
  let ?rows = "[exampleRow Thursday ''9am'' ''12:00:00'',
                exampleRow Friday ''09:00:00'' ''12:00:00'']"
  have h1: "''e1'' \<noteq> []"
    by simp
  have h2: "dbFault okEnv EventAvailabilityQuery = None"
    by (simp add: okEnv_def exampleEnv_def noFault_def)
  have h3: "dbFault okEnv MeetingsInRangeQuery = None"
    by (simp add: okEnv_def exampleEnv_def noFault_def)
  have h4: "eventAvailabilityQuery (googleWorld [] ?rows) ''e1''
      = exampleRow Thursday ''9am'' ''12:00:00'' # [exampleRow Friday ''09:00:00'' ''12:00:00'']"
    by (simp add: eventAvailabilityQuery_def googleWorld_def exampleWorld_def exampleRow_def
        exampleEvent_def)
  have h5: "AvailabilityID (exampleRow Thursday ''9am'' ''12:00:00'') \<noteq> None"
    by (simp add: exampleRow_def)
  have h6: "(60 :: 64 word)
      = (case TimeGap (exampleRow Thursday ''9am'' ''12:00:00'') of None \<Rightarrow> 0 | Some g \<Rightarrow> g)"
    by (simp add: exampleRow_def)
  have h7: "sint (60 :: 64 word) \<le> 153722867"
    by simp
  have p: "ParseDBTime ''9am'' = None"
    by (simp add: ParseDBTime_def isDigit_def digitVal_def)
  have v: "map_option (map_sum id (map Slots))
        (GetPublicEventAvailability okEnv ''e1'' 0 (googleWorld [] ?rows))
       = Some (Inr [[], [], [], [], [], [''09:00'', ''10:00'', ''11:00''], []])"
    by code_simp
  from GetPublicEventAvailability_failed_day_empty [OF h1 h2 h3 h4 h5 h6 h7, of 0]
  have "\<exists>result. GetPublicEventAvailability okEnv ''e1'' 0 (googleWorld [] ?rows)
          = Some (Inr result) \<and> map Day result = AllDayOfWeek"
    by blast
  with h1 h2 h3 h4 h5 h7 p v show ?thesis
    by simp
qed

end
